theory Spec2Isabelle
  imports Complex_Main "HOL-Library.Sublist"
begin

section \<open>Tables\<close>

text \<open>
  The application (\<^verbatim>\<open>app2.py\<close>) keeps the uploaded applications in a pandas
  DataFrame. A cell is a missing value, a string or a number. A row carries the value of
  the \<^verbatim>\<open>ID\<close> column, which \<^verbatim>\<open>load_data\<close> assigns, and the values of the
  other columns by column name; a frame is its column names, in order, and its rows, in
  order.
\<close>

datatype error = KeyError | ZeroDivisionError | ReError

datatype cell = NaN | Str string | Num int

record row =
  ID :: int
  cells :: "string \<Rightarrow> cell"

record dataframe =
  columns :: "string list"
  rows :: "row list"

text \<open>What \<^verbatim>\<open>pd.read_csv\<close> hands to \<^verbatim>\<open>load_data\<close>: column names and rows.\<close>

record raw_table =
  raw_columns :: "string list"
  raw_rows :: "(string \<Rightarrow> cell) list"

definition cell_at :: "row \<Rightarrow> string \<Rightarrow> cell" where
  "cell_at r c = (if c = ''ID'' then Num (ID r) else cells r c)"

text \<open>\<^verbatim>\<open>row[c]\<close> on a row of a frame with the columns \<open>cols\<close>.\<close>

definition row_get :: "string list \<Rightarrow> row \<Rightarrow> string \<Rightarrow> error + cell" where
  "row_get cols r c = (if c \<in> set cols then Inr (cell_at r c) else Inl KeyError)"

text \<open>
  \<^verbatim>\<open>load_data\<close>: the argument is the outcome of \<^verbatim>\<open>pd.read_csv(file)\<close>,
  \<open>None\<close> when it raises (the \<^verbatim>\<open>except\<close> branch reports the error and returns
  \<^verbatim>\<open>None\<close>). \<^verbatim>\<open>df['ID'] = range(len(df))\<close> overwrites a column of that name
  and appends it otherwise.
\<close>

definition load_data :: "raw_table option \<Rightarrow> dataframe option" where
  "load_data file =
     (case file of
        None \<Rightarrow> None
      | Some t \<Rightarrow>
          Some \<lparr>columns = (if ''ID'' \<in> set (raw_columns t) then raw_columns t
                           else raw_columns t @ [''ID'']),
                rows = map (\<lambda>(i, r). \<lparr>ID = int i, cells = r\<rparr>) (enumerate 0 (raw_rows t))\<rparr>)"

text \<open>\<^verbatim>\<open>d[c] = d.apply(f)\<close> for a column name other than \<^verbatim>\<open>ID\<close>.\<close>

definition assign :: "string \<Rightarrow> (row \<Rightarrow> cell) \<Rightarrow> dataframe \<Rightarrow> dataframe" where
  "assign c f d =
     \<lparr>columns = (if c \<in> set (columns d) then columns d else columns d @ [c]),
      rows = map (\<lambda>r. r\<lparr>cells := (cells r)(c := f r)\<rparr>) (rows d)\<rparr>"

section \<open>Session state\<close>

text \<open>
  The text of a remark comes from a text area and is a Python \<^verbatim>\<open>str\<close>, a sequence
  of Unicode code points; \<^verbatim>\<open>strip\<close> decides whitespace per code point, so the text
  is kept as the list of its code points.
\<close>

type_synonym unicode = "nat list"

record session_state =
  df :: "dataframe option"
  shortlisted :: "int set"
  rejected :: "int set"
  remarks :: "int \<rightharpoonup> (string \<times> unicode) list"
  contact_status :: "int \<rightharpoonup> string"
  interview_scheduled :: "int \<rightharpoonup> string"
  ratings :: "int \<rightharpoonup> int"

definition init_state :: session_state where
  "init_state =
     \<lparr>df = None, shortlisted = {}, rejected = {}, remarks = Map.empty,
      contact_status = Map.empty, interview_scheduled = Map.empty, ratings = Map.empty\<rparr>"

text \<open>The three labels of \<^verbatim>\<open>get_status\<close>; each starts with an emoji, given in UTF-8.\<close>

definition label_shortlisted :: string where
  "label_shortlisted = [CHR 0xE2, CHR 0x9C, CHR 0x85] @ '' Shortlisted''"

definition label_rejected :: string where
  "label_rejected = [CHR 0xE2, CHR 0x9D, CHR 0x8C] @ '' Rejected''"

definition label_pending :: string where
  "label_pending = [CHR 0xE2, CHR 0x8F, CHR 0xB3] @ '' Pending''"

definition get_status :: "session_state \<Rightarrow> int \<Rightarrow> string" where
  "get_status s row_id =
     (if row_id \<in> shortlisted s then label_shortlisted
      else if row_id \<in> rejected s then label_rejected
      else label_pending)"

definition get_contact_status :: "session_state \<Rightarrow> int \<Rightarrow> string" where
  "get_contact_status s row_id =
     (case contact_status s row_id of None \<Rightarrow> ''Not Contacted'' | Some v \<Rightarrow> v)"

definition get_rating :: "session_state \<Rightarrow> int \<Rightarrow> int" where
  "get_rating s row_id = (case ratings s row_id of None \<Rightarrow> 0 | Some v \<Rightarrow> v)"

definition get_remarks :: "session_state \<Rightarrow> int \<Rightarrow> (string \<times> unicode) list" where
  "get_remarks s row_id = (case remarks s row_id of None \<Rightarrow> [] | Some v \<Rightarrow> v)"

text \<open>
  \<^verbatim>\<open>add_remark\<close>: \<open>now\<close> is \<^verbatim>\<open>datetime.now()\<close> as formatted by the source. A
  remark is the pair of its timestamp and its text.
\<close>

definition add_remark :: "session_state \<Rightarrow> int \<Rightarrow> string \<Rightarrow> unicode \<Rightarrow> session_state" where
  "add_remark s row_id now remark =
     s\<lparr>remarks := (remarks s)(row_id \<mapsto> get_remarks s row_id @ [(now, remark)])\<rparr>"

section \<open>The per-candidate buttons\<close>

definition shortlist_button :: "session_state \<Rightarrow> int \<Rightarrow> session_state" where
  "shortlist_button s row_id =
     s\<lparr>shortlisted := insert row_id (shortlisted s), rejected := rejected s - {row_id}\<rparr>"

definition reject_button :: "session_state \<Rightarrow> int \<Rightarrow> session_state" where
  "reject_button s row_id =
     s\<lparr>rejected := insert row_id (rejected s), shortlisted := shortlisted s - {row_id}\<rparr>"

definition contact_selectbox :: "session_state \<Rightarrow> int \<Rightarrow> string \<Rightarrow> session_state" where
  "contact_selectbox s row_id new_contact =
     (if new_contact \<noteq> get_contact_status s row_id
      then s\<lparr>contact_status := (contact_status s)(row_id \<mapsto> new_contact)\<rparr>
      else s)"

definition rating_selectbox :: "session_state \<Rightarrow> int \<Rightarrow> int \<Rightarrow> session_state" where
  "rating_selectbox s row_id new_rating =
     (if new_rating \<noteq> get_rating s row_id
      then s\<lparr>ratings := (ratings s)(row_id \<mapsto> new_rating)\<rparr>
      else s)"

definition schedule_button :: "session_state \<Rightarrow> int \<Rightarrow> string \<Rightarrow> session_state" where
  "schedule_button s row_id interview_date =
     (if row_id \<notin> dom (interview_scheduled s)
      then s\<lparr>interview_scheduled := (interview_scheduled s)(row_id \<mapsto> interview_date)\<rparr>
      else s)"

definition cancel_button :: "session_state \<Rightarrow> int \<Rightarrow> session_state" where
  "cancel_button s row_id =
     (if row_id \<in> dom (interview_scheduled s)
      then s\<lparr>interview_scheduled := (interview_scheduled s)(row_id := None)\<rparr>
      else s)"

text \<open>
  The Save button of a candidate's remark box. \<^verbatim>\<open>new_remark.strip()\<close> removes
  leading and trailing whitespace; the text is saved when something is left. The second
  component is what the handler reports (\<^verbatim>\<open>st.success\<close>).

  \<open>py_isspace\<close> holds of the code points that \<^verbatim>\<open>str.strip()\<close> removes, the ones
  for which \<^verbatim>\<open>str.isspace\<close> is true: the ASCII ones (tab to carriage return, the four
  separators \<^verbatim>\<open>0x1C\<close> to \<^verbatim>\<open>0x1F\<close>, the space), next line, no-break space, ogham
  space mark, the spaces \<^verbatim>\<open>U+2000\<close> to \<^verbatim>\<open>U+200A\<close>, line and paragraph
  separator, narrow no-break space, medium mathematical space and ideographic space.
\<close>

datatype notice = Success string | Warning string | Info string | Error string

definition py_isspace :: "nat \<Rightarrow> bool" where
  "py_isspace c =
     (c \<in> {0x09, 0x0A, 0x0B, 0x0C, 0x0D, 0x1C, 0x1D, 0x1E, 0x1F, 0x20, 0x85, 0xA0, 0x1680,
            0x2028, 0x2029, 0x202F, 0x205F, 0x3000} \<or>
      (0x2000 \<le> c \<and> c \<le> 0x200A))"

definition strip :: "unicode \<Rightarrow> unicode" where
  "strip t = rev (dropWhile py_isspace (rev (dropWhile py_isspace t)))"

definition save_remark_button ::
  "session_state \<Rightarrow> int \<Rightarrow> unicode \<Rightarrow> string \<Rightarrow> session_state \<times> notice list" where
  "save_remark_button s row_id new_remark now =
     (if strip new_remark \<noteq> []
      then (add_remark s row_id now new_remark, [Success ''Remark saved!''])
      else (s, []))"

section \<open>Bulk actions\<close>

text \<open>
  The loops over \<^verbatim>\<open>filtered_df.iterrows()\<close> run over the rows in order. The frame
  is the script's \<^verbatim>\<open>filtered_df\<close> at the time of the click. The counters of the
  loops only feed the messages and are left out.
\<close>

text \<open>
  \<^verbatim>\<open>for id in st.session_state.shortlisted: contact_status[id] = "Email Sent"\<close>
  iterates a set; its effect does not depend on the order.
\<close>

definition mark_shortlisted_email_sent :: "session_state \<Rightarrow> session_state" where
  "mark_shortlisted_email_sent s =
     s\<lparr>contact_status :=
         (\<lambda>i. if i \<in> shortlisted s then Some ''Email Sent'' else contact_status s i)\<rparr>"

definition mark_filtered_no_answer :: "session_state \<Rightarrow> dataframe \<Rightarrow> session_state" where
  "mark_filtered_no_answer s filtered_df =
     fold (\<lambda>r s'. s'\<lparr>contact_status := (contact_status s')(ID r \<mapsto> ''Called - No Answer'')\<rparr>)
       (rows filtered_df) s"

definition shortlist_all_filtered :: "session_state \<Rightarrow> dataframe \<Rightarrow> session_state" where
  "shortlist_all_filtered s filtered_df =
     fold (\<lambda>r s'. shortlist_button s' (ID r)) (rows filtered_df) s"

definition reject_all_filtered :: "session_state \<Rightarrow> dataframe \<Rightarrow> session_state" where
  "reject_all_filtered s filtered_df =
     fold (\<lambda>r s'. reject_button s' (ID r)) (rows filtered_df) s"

definition reset_filtered_to_pending :: "session_state \<Rightarrow> dataframe \<Rightarrow> session_state" where
  "reset_filtered_to_pending s filtered_df =
     fold (\<lambda>r s'. s'\<lparr>shortlisted := shortlisted s' - {ID r}, rejected := rejected s' - {ID r}\<rparr>)
       (rows filtered_df) s"

text \<open>
  The four auto-shortlist rules share one loop: a row that satisfies the rule is
  shortlisted. Reading a column the frame does not have raises \<^verbatim>\<open>KeyError\<close>, which
  ends the run; the state keeps what the loop did before.
\<close>

fun auto_shortlist ::
  "(session_state \<Rightarrow> row \<Rightarrow> error + bool) \<Rightarrow> row list \<Rightarrow> session_state
     \<Rightarrow> session_state \<times> error option" where
  "auto_shortlist rule [] s = (s, None)"
| "auto_shortlist rule (r # rs) s =
     (case rule s r of
        Inl e \<Rightarrow> (s, Some e)
      | Inr b \<Rightarrow> auto_shortlist rule rs (if b then shortlist_button s (ID r) else s))"

definition has_laptop_and_smartphone :: "string list \<Rightarrow> session_state \<Rightarrow> row \<Rightarrow> error + bool" where
  "has_laptop_and_smartphone cols s r =
     (case row_get cols r ''Do you have a laptop?'' of
        Inl e \<Rightarrow> Inl e
      | Inr a \<Rightarrow>
          if a = Str ''Yes''
          then (case row_get cols r ''Do you have a smartphone?'' of
                  Inl e \<Rightarrow> Inl e
                | Inr b \<Rightarrow> Inr (b = Str ''Yes''))
          else Inr False)"

text \<open>
  \<^verbatim>\<open>'Full' in str(row[...])\<close>: \<^verbatim>\<open>str\<close> of a missing value is \<^verbatim>\<open>nan\<close> and
  of a number its digits, neither of which contains \<^verbatim>\<open>Full\<close>.
\<close>

definition full_time_available :: "string list \<Rightarrow> session_state \<Rightarrow> row \<Rightarrow> error + bool" where
  "full_time_available cols s r =
     (case row_get cols r ''Hours of internship you can provide'' of
        Inl e \<Rightarrow> Inl e
      | Inr a \<Rightarrow> Inr (case a of Str t \<Rightarrow> sublist ''Full'' t | _ \<Rightarrow> False))"

definition graduate_or_engineer :: "string list \<Rightarrow> session_state \<Rightarrow> row \<Rightarrow> error + bool" where
  "graduate_or_engineer cols s r =
     (case row_get cols r ''Your highest qualification'' of
        Inl e \<Rightarrow> Inl e
      | Inr a \<Rightarrow> Inr (a \<in> set [Str ''Graduate'', Str ''Engineer'']))"

definition rated_4_plus :: "session_state \<Rightarrow> row \<Rightarrow> error + bool" where
  "rated_4_plus s r = Inr (get_rating s (ID r) \<ge> 4)"

definition rating_map :: "cell \<rightharpoonup> int" where
  "rating_map =
     map_of [(Str ''Engineer'', 5), (Str ''Graduate'', 4), (Str ''Post Graduate'', 5),
             (Str ''Diploma'', 3), (Str ''Intermediate'', 2)]"

fun auto_rate :: "string list \<Rightarrow> row list \<Rightarrow> session_state \<Rightarrow> session_state \<times> error option" where
  "auto_rate cols [] s = (s, None)"
| "auto_rate cols (r # rs) s =
     (case row_get cols r ''Your highest qualification'' of
        Inl e \<Rightarrow> (s, Some e)
      | Inr qual \<Rightarrow>
          auto_rate cols rs
            (case rating_map qual of
               None \<Rightarrow> s
             | Some v \<Rightarrow> s\<lparr>ratings := (ratings s)(ID r \<mapsto> v)\<rparr>))"

definition reset_all_selections :: "session_state \<Rightarrow> session_state" where
  "reset_all_selections s = s\<lparr>shortlisted := {}, rejected := {}\<rparr>"

definition upload_new_file :: "session_state \<Rightarrow> session_state" where
  "upload_new_file s =
     s\<lparr>df := None, shortlisted := {}, rejected := {}, remarks := Map.empty,
       contact_status := Map.empty, interview_scheduled := Map.empty, ratings := Map.empty\<rparr>"

section \<open>One run of the script\<close>

text \<open>
  Every widget event reruns the script once. Without a dataset only the file uploader is
  shown; with one, the event is one of the buttons and select boxes below. The actions are
  all the places where the script writes to the session state.
\<close>

datatype action =
    FileUploaded "raw_table option"
  | SaveRemark int unicode string
  | Shortlist int
  | Reject int
  | SelectContact int string
  | SelectRating int int
  | Schedule int string
  | CancelInterview int
  | MarkShortlistedEmailSent
  | MarkFilteredNoAnswer dataframe
  | AutoShortlistLaptopSmartphone dataframe
  | AutoShortlistFullTime dataframe
  | AutoShortlistGraduateEngineer dataframe
  | AutoShortlistRated4 dataframe
  | ShortlistAllFiltered dataframe
  | RejectAllFiltered dataframe
  | ResetFilteredToPending dataframe
  | AutoRateByQualification dataframe
  | ResetAllSelections
  | UploadNewFile

fun handle :: "session_state \<Rightarrow> action \<Rightarrow> session_state" where
  "handle s (FileUploaded file) = s"
| "handle s (SaveRemark row_id new_remark now) = fst (save_remark_button s row_id new_remark now)"
| "handle s (Shortlist row_id) = shortlist_button s row_id"
| "handle s (Reject row_id) = reject_button s row_id"
| "handle s (SelectContact row_id new_contact) = contact_selectbox s row_id new_contact"
| "handle s (SelectRating row_id new_rating) = rating_selectbox s row_id new_rating"
| "handle s (Schedule row_id interview_date) = schedule_button s row_id interview_date"
| "handle s (CancelInterview row_id) = cancel_button s row_id"
| "handle s MarkShortlistedEmailSent = mark_shortlisted_email_sent s"
| "handle s (MarkFilteredNoAnswer d) = mark_filtered_no_answer s d"
| "handle s (AutoShortlistLaptopSmartphone d) =
     fst (auto_shortlist (has_laptop_and_smartphone (columns d)) (rows d) s)"
| "handle s (AutoShortlistFullTime d) =
     fst (auto_shortlist (full_time_available (columns d)) (rows d) s)"
| "handle s (AutoShortlistGraduateEngineer d) =
     fst (auto_shortlist (graduate_or_engineer (columns d)) (rows d) s)"
| "handle s (AutoShortlistRated4 d) = fst (auto_shortlist rated_4_plus (rows d) s)"
| "handle s (ShortlistAllFiltered d) = shortlist_all_filtered s d"
| "handle s (RejectAllFiltered d) = reject_all_filtered s d"
| "handle s (ResetFilteredToPending d) = reset_filtered_to_pending s d"
| "handle s (AutoRateByQualification d) = fst (auto_rate (columns d) (rows d) s)"
| "handle s ResetAllSelections = reset_all_selections s"
| "handle s UploadNewFile = upload_new_file s"

definition step :: "session_state \<Rightarrow> action \<Rightarrow> session_state" where
  "step s a =
     (case df s of
        None \<Rightarrow>
          (case a of
             FileUploaded file \<Rightarrow>
               (case load_data file of None \<Rightarrow> s | Some d \<Rightarrow> s\<lparr>df := Some d\<rparr>)
           | _ \<Rightarrow> s)
      | Some d \<Rightarrow> handle s a)"

definition run :: "action list \<Rightarrow> session_state" where
  "run acts = foldl step init_state acts"

section \<open>Derived fields and filters\<close>

text \<open>
  The parts of pandas and of the clock that the script calls are parameters of the model:
  \<open>today\<close> is \<^verbatim>\<open>datetime.now()\<close>; \<open>to_datetime\<close> is
  \<^verbatim>\<open>pd.to_datetime(x, format='%d-%m-%Y', errors='coerce')\<close>, \<open>None\<close> when the
  result is \<^verbatim>\<open>NaT\<close> or the call raises; \<open>str_contains pat\<close> is the test
  \<^verbatim>\<open>str.contains(pat, case=False, na=False)\<close> on a cell converted by
  \<^verbatim>\<open>astype(str)\<close>, \<open>None\<close> when \<open>pat\<close> is not a regular expression.
\<close>

record date =
  year :: int
  month :: int
  day :: int

record env =
  today :: date
  to_datetime :: "cell \<Rightarrow> date option"
  str_contains :: "string \<Rightarrow> (cell \<Rightarrow> bool) option"

text \<open>
  \<^verbatim>\<open>calculate_age\<close>. The bare \<^verbatim>\<open>except\<close> turns every exception into
  \<^verbatim>\<open>None\<close>. The comparison of the two pairs is Python's lexicographic order.
\<close>

definition calculate_age :: "env \<Rightarrow> cell \<Rightarrow> int option" where
  "calculate_age e age_str =
     (if age_str = NaN \<or> age_str = Str [] then None
      else (case to_datetime e age_str of
              None \<Rightarrow> None
            | Some birth_date \<Rightarrow>
                Some (year (today e) - year birth_date -
                      (if month (today e) < month birth_date \<or>
                          (month (today e) = month birth_date \<and> day (today e) < day birth_date)
                       then 1 else 0))))"

text \<open>
  The filter dictionary. The keys \<^verbatim>\<open>contact_status\<close> and
  \<^verbatim>\<open>interview_status\<close> are named \<open>contact_filter\<close> and \<open>interview_filter\<close>,
  after the variables the script fills them from. The categorical values are cells: the
  select boxes offer the values of the column.
\<close>

record filters =
  search :: string
  gender :: cell
  qualification :: cell
  internship_type :: cell
  district :: cell
  laptop :: cell
  smartphone :: cell
  availability :: cell
  min_age :: "int option"
  max_age :: "int option"
  view_mode :: string
  contact_filter :: string
  interview_filter :: string

definition bindE :: "error + 'a \<Rightarrow> ('a \<Rightarrow> error + 'b) \<Rightarrow> error + 'b" where
  "bindE m k = (case m of Inl e \<Rightarrow> Inl e | Inr x \<Rightarrow> k x)"

text \<open>\<^verbatim>\<open>d[mask]\<close> where the mask is computed from the column \<open>c\<close>.\<close>

definition select :: "string \<Rightarrow> (row \<Rightarrow> bool) \<Rightarrow> dataframe \<Rightarrow> error + dataframe" where
  "select c p d =
     (if c \<in> set (columns d) then Inr (d\<lparr>rows := filter p (rows d)\<rparr>) else Inl KeyError)"

text \<open>Elementwise \<^verbatim>\<open>==\<close>: a missing value equals nothing.\<close>

definition cell_eq :: "cell \<Rightarrow> cell \<Rightarrow> bool" where
  "cell_eq x v = (x \<noteq> NaN \<and> x = v)"

definition search_filter :: "env \<Rightarrow> string \<Rightarrow> dataframe \<Rightarrow> error + dataframe" where
  "search_filter e pat d =
     (if pat \<noteq> []
      then (case str_contains e pat of
              None \<Rightarrow> Inl ReError
            | Some m \<Rightarrow> Inr (d\<lparr>rows := filter (\<lambda>r. list_ex (\<lambda>c. m (cell_at r c)) (columns d)) (rows d)\<rparr>))
      else Inr d)"

definition eq_filter :: "string \<Rightarrow> cell \<Rightarrow> dataframe \<Rightarrow> error + dataframe" where
  "eq_filter c v d =
     (if v \<noteq> Str ''All'' then select c (\<lambda>r. cell_eq (cell_at r c) v) d else Inr d)"

definition contact_status_filter :: "session_state \<Rightarrow> string \<Rightarrow> dataframe \<Rightarrow> error + dataframe" where
  "contact_status_filter s v d =
     (if v \<noteq> ''All''
      then (if v = ''Contacted'' then select ''ID'' (\<lambda>r. ID r \<in> dom (contact_status s)) d
            else if v = ''Not Contacted''
            then select ''ID'' (\<lambda>r. ID r \<notin> dom (contact_status s)) d
            else Inr d)
      else Inr d)"

definition interview_status_filter :: "session_state \<Rightarrow> string \<Rightarrow> dataframe \<Rightarrow> error + dataframe" where
  "interview_status_filter s v d =
     (if v \<noteq> ''All''
      then (if v = ''Scheduled'' then select ''ID'' (\<lambda>r. ID r \<in> dom (interview_scheduled s)) d
            else if v = ''Not Scheduled''
            then select ''ID'' (\<lambda>r. ID r \<notin> dom (interview_scheduled s)) d
            else Inr d)
      else Inr d)"

definition age_column :: string where
  "age_column = ''Your age as on date of application''"

text \<open>Python's truth value of an age bound: \<^verbatim>\<open>None\<close> and \<^verbatim>\<open>0\<close> are false.\<close>

definition py_truthy :: "int option \<Rightarrow> bool" where
  "py_truthy b = (case b of None \<Rightarrow> False | Some m \<Rightarrow> m \<noteq> 0)"

text \<open>
  One bound of the age filter, \<^verbatim>\<open>d[d['Age'] >= m]\<close> or \<^verbatim>\<open>d[d['Age'] <= m]\<close>:
  a comparison with a missing age is false.
\<close>

definition age_bound :: "(int \<Rightarrow> int \<Rightarrow> bool) \<Rightarrow> int option \<Rightarrow> dataframe \<Rightarrow> error + dataframe" where
  "age_bound cmp b d =
     (case b of
        None \<Rightarrow> Inr d
      | Some m \<Rightarrow>
          if m \<noteq> 0
          then select ''Age'' (\<lambda>r. case cell_at r ''Age'' of Num a \<Rightarrow> cmp a m | _ \<Rightarrow> False) d
          else Inr d)"

definition age_filter :: "env \<Rightarrow> int option \<Rightarrow> int option \<Rightarrow> dataframe \<Rightarrow> error + dataframe" where
  "age_filter e lo hi d =
     (if py_truthy lo \<or> py_truthy hi
      then (if age_column \<in> set (columns d)
            then bindE
                   (age_bound (\<lambda>a m. a \<ge> m) lo
                      (assign ''Age''
                         (\<lambda>r. case calculate_age e (cell_at r age_column) of
                                 None \<Rightarrow> NaN | Some a \<Rightarrow> Num a) d))
                   (age_bound (\<lambda>a m. a \<le> m) hi)
            else Inl KeyError)
      else Inr d)"

definition view_mode_filter :: "session_state \<Rightarrow> string \<Rightarrow> dataframe \<Rightarrow> error + dataframe" where
  "view_mode_filter s v d =
     (if v = ''Shortlisted'' then select ''ID'' (\<lambda>r. ID r \<in> shortlisted s) d
      else if v = ''Rejected'' then select ''ID'' (\<lambda>r. ID r \<in> rejected s) d
      else if v = ''Pending''
      then select ''ID'' (\<lambda>r. ID r \<notin> shortlisted s \<and> ID r \<notin> rejected s) d
      else Inr d)"

definition apply_filters :: "env \<Rightarrow> session_state \<Rightarrow> dataframe \<Rightarrow> filters \<Rightarrow> error + dataframe" where
  "apply_filters e s d f =
     bindE (search_filter e (search f) d) (\<lambda>d.
     bindE (eq_filter ''Gender'' (gender f) d) (\<lambda>d.
     bindE (eq_filter ''Your highest qualification'' (qualification f) d) (\<lambda>d.
     bindE (eq_filter ''Which type of internship would you prefer?'' (internship_type f) d) (\<lambda>d.
     bindE (eq_filter ''Do you have a laptop?'' (laptop f) d) (\<lambda>d.
     bindE (eq_filter ''Do you have a smartphone?'' (smartphone f) d) (\<lambda>d.
     bindE (eq_filter ''District of Residence'' (district f) d) (\<lambda>d.
     bindE (eq_filter ''Hours of internship you can provide'' (availability f) d) (\<lambda>d.
     bindE (contact_status_filter s (contact_filter f) d) (\<lambda>d.
     bindE (interview_status_filter s (interview_filter f) d) (\<lambda>d.
     bindE (age_filter e (min_age f) (max_age f) d) (\<lambda>d.
     view_mode_filter s (view_mode f) d)))))))))))"

section \<open>Dashboard, onboarding list and report\<close>

text \<open>
  The deltas of the overview metrics, \<^verbatim>\<open>count / len(df) * 100\<close>. Python's
  \<^verbatim>\<open>/\<close> raises \<^verbatim>\<open>ZeroDivisionError\<close> on a zero divisor. The value is kept as an
  exact fraction; the rounding of the float and of the format \<^verbatim>\<open>.1f\<close> is not
  modelled.
\<close>

definition percentage :: "int \<Rightarrow> int \<Rightarrow> error + rat" where
  "percentage count n =
     (if n = 0 then Inl ZeroDivisionError else Inr (of_int count / of_int n * 100))"

definition len :: "dataframe \<Rightarrow> int" where
  "len d = int (length (rows d))"

definition dashboard_overview :: "session_state \<Rightarrow> dataframe \<Rightarrow> error + rat \<times> rat \<times> rat" where
  "dashboard_overview s d =
     bindE (percentage (int (card (shortlisted s))) (len d)) (\<lambda>p_shortlisted.
     bindE (percentage (int (card (rejected s))) (len d)) (\<lambda>p_rejected.
     bindE (percentage (len d - int (card (shortlisted s)) - int (card (rejected s))) (len d))
       (\<lambda>p_pending. Inr (p_shortlisted, p_rejected, p_pending))))"

text \<open>
  \<^verbatim>\<open>ready_candidates\<close>, the same comprehension in the onboarding tab and in the
  summary report. It runs over a set, so the result is given as a set; the metric is its
  size. \<^verbatim>\<open>'Interested' in status\<close> is Python's substring test.
\<close>

definition ready_candidates :: "session_state \<Rightarrow> int set" where
  "ready_candidates s =
     Set.filter
       (\<lambda>i. case contact_status s i of None \<Rightarrow> False | Some v \<Rightarrow> sublist ''Interested'' v)
       (shortlisted s)"

definition candidates_ready :: "session_state \<Rightarrow> nat" where
  "candidates_ready s = card (ready_candidates s)"

text \<open>The frame behind the Download Full Report button.\<close>

definition full_report :: "session_state \<Rightarrow> dataframe \<Rightarrow> dataframe" where
  "full_report s d =
     assign ''Interview_Date''
       (\<lambda>r. Str (case interview_scheduled s (ID r) of None \<Rightarrow> ''Not Scheduled'' | Some v \<Rightarrow> v))
       (assign ''Rating'' (\<lambda>r. Num (get_rating s (ID r)))
          (assign ''Contact_Status'' (\<lambda>r. Str (get_contact_status s (ID r)))
             (assign ''Status'' (\<lambda>r. Str (get_status s (ID r))) d)))"

text \<open>
  \<^verbatim>\<open>to_csv(index=False)\<close> and \<^verbatim>\<open>pd.read_csv\<close> are pandas code. A written file
  is taken to be the table it holds: the frame's columns in order, and every row's value
  in each of them.
\<close>

definition exported_table :: "dataframe \<Rightarrow> raw_table" where
  "exported_table d = \<lparr>raw_columns = columns d, raw_rows = map (\<lambda>r. cell_at r) (rows d)\<rparr>"

section \<open>Properties used in the proofs\<close>

definition disjoint_marks :: "session_state \<Rightarrow> bool" where
  "disjoint_marks s = (shortlisted s \<inter> rejected s = {})"

definition finite_marks :: "session_state \<Rightarrow> bool" where
  "finite_marks s = (finite (shortlisted s) \<and> finite (dom (contact_status s)))"

section \<open>Sample data\<close>

text \<open>A file with a header line and no applications.\<close>

definition header_only_table :: raw_table where
  "header_only_table =
     \<lparr>raw_columns = [''Your Full name'', ''Gender'', age_column], raw_rows = []\<rparr>"

text \<open>A file with two applications; the second has no birth date.\<close>

definition asha :: "string \<Rightarrow> cell" where
  "asha = (\<lambda>c. NaN)(''Your Full name'' := Str ''Asha'', ''Gender'' := Str ''Female'',
            age_column := Str ''15-03-2000'')"

definition ravi :: "string \<Rightarrow> cell" where
  "ravi = (\<lambda>c. NaN)(''Your Full name'' := Str ''Ravi'', ''Gender'' := Str ''Male'')"

definition sample_table :: raw_table where
  "sample_table =
     \<lparr>raw_columns = [''Your Full name'', ''Gender'', age_column], raw_rows = [asha, ravi]\<rparr>"

text \<open>The dataset \<^verbatim>\<open>load_data\<close> makes of it, and what the age filter leaves of it.\<close>

definition sample_frame :: dataframe where
  "sample_frame =
     \<lparr>columns = [''Your Full name'', ''Gender'', age_column, ''ID''],
      rows = [\<lparr>ID = 0, cells = asha\<rparr>, \<lparr>ID = 1, cells = ravi\<rparr>]\<rparr>"

definition sample_filtered :: dataframe where
  "sample_filtered =
     \<lparr>columns = [''Your Full name'', ''Gender'', age_column, ''ID'', ''Age''],
      rows = [\<lparr>ID = 0, cells = asha(''Age'' := Num 23)\<rparr>]\<rparr>"

definition sample_env :: env where
  "sample_env =
     \<lparr>today = \<lparr>year = 2024, month = 3, day = 14\<rparr>,
      to_datetime =
        (\<lambda>c. if c = Str ''15-03-2000'' then Some \<lparr>year = 2000, month = 3, day = 15\<rparr> else None),
      str_contains = (\<lambda>pat. None)\<rparr>"

text \<open>The filter dictionary of an untouched sidebar.\<close>

definition no_filters :: filters where
  "no_filters =
     \<lparr>search = [], gender = Str ''All'', qualification = Str ''All'',
      internship_type = Str ''All'', district = Str ''All'', laptop = Str ''All'',
      smartphone = Str ''All'', availability = Str ''All'', min_age = None, max_age = None,
      view_mode = ''All Applications'', contact_filter = ''All'', interview_filter = ''All''\<rparr>"

text \<open>A file that already has a column named \<^verbatim>\<open>Status\<close>, and its dataset.\<close>

definition status_table :: raw_table where
  "status_table =
     \<lparr>raw_columns = [''Your Full name'', ''Status''],
      raw_rows = [(\<lambda>c. NaN)(''Your Full name'' := Str ''Asha'', ''Status'' := Str ''old'')]\<rparr>"

definition status_frame :: dataframe where
  "status_frame =
     \<lparr>columns = [''Your Full name'', ''Status'', ''ID''],
      rows = [\<lparr>ID = 0,
               cells = (\<lambda>c. NaN)(''Your Full name'' := Str ''Asha'', ''Status'' := Str ''old'')\<rparr>]\<rparr>"

text \<open>The four columns the full report adds.\<close>

definition report_columns :: "string list" where
  "report_columns = [''Status'', ''Contact_Status'', ''Rating'', ''Interview_Date'']"

section \<open>Shortlisted and rejected marks\<close>

lemma fold_shortlist_button:
  "shortlisted (fold (\<lambda>r s'. shortlist_button s' (ID r)) rs s) = shortlisted s \<union> ID ` set rs \<and>
   rejected (fold (\<lambda>r s'. shortlist_button s' (ID r)) rs s) = rejected s - ID ` set rs"
  by (induction rs arbitrary: s) (auto simp: shortlist_button_def)

lemma fold_reject_button:
  "rejected (fold (\<lambda>r s'. reject_button s' (ID r)) rs s) = rejected s \<union> ID ` set rs \<and>
   shortlisted (fold (\<lambda>r s'. reject_button s' (ID r)) rs s) = shortlisted s - ID ` set rs"
  by (induction rs arbitrary: s) (auto simp: reject_button_def)

lemma fold_reset_pending:
  "shortlisted (fold (\<lambda>r s'. s'\<lparr>shortlisted := shortlisted s' - {ID r},
       rejected := rejected s' - {ID r}\<rparr>) rs s) = shortlisted s - ID ` set rs \<and>
   rejected (fold (\<lambda>r s'. s'\<lparr>shortlisted := shortlisted s' - {ID r},
       rejected := rejected s' - {ID r}\<rparr>) rs s) = rejected s - ID ` set rs"
  by (induction rs arbitrary: s) auto

lemma auto_shortlist_disjoint:
  "disjoint_marks s \<Longrightarrow> disjoint_marks (fst (auto_shortlist rule rs s))"
proof (induction rs arbitrary: s)
  case Nil
  then show ?case by simp
next
  case (Cons r rs)
  have "disjoint_marks (shortlist_button s (ID r))"
    using Cons.prems by (auto simp: disjoint_marks_def shortlist_button_def)
  with Cons show ?case
    by (auto split: sum.splits)
qed

lemma auto_rate_marks:
  "shortlisted (fst (auto_rate cols rs s)) = shortlisted s \<and>
   rejected (fst (auto_rate cols rs s)) = rejected s \<and>
   contact_status (fst (auto_rate cols rs s)) = contact_status s"
  by (induction rs arbitrary: s) (auto split: sum.splits option.splits)

lemma fold_no_answer_marks:
  "shortlisted (fold (\<lambda>r s'. s'\<lparr>contact_status := (contact_status s')(ID r \<mapsto> v)\<rparr>) rs s)
     = shortlisted s \<and>
   rejected (fold (\<lambda>r s'. s'\<lparr>contact_status := (contact_status s')(ID r \<mapsto> v)\<rparr>) rs s)
     = rejected s"
  by (induction rs arbitrary: s) auto

lemma handle_disjoint:
  assumes "disjoint_marks s"
  shows "disjoint_marks (handle s a)"
proof (cases a)
  case (AutoShortlistLaptopSmartphone d)
  then show ?thesis using assms by (simp add: auto_shortlist_disjoint)
next
  case (AutoShortlistFullTime d)
  then show ?thesis using assms by (simp add: auto_shortlist_disjoint)
next
  case (AutoShortlistGraduateEngineer d)
  then show ?thesis using assms by (simp add: auto_shortlist_disjoint)
next
  case (AutoShortlistRated4 d)
  then show ?thesis using assms by (simp add: auto_shortlist_disjoint)
next
  case (AutoRateByQualification d)
  then show ?thesis using assms by (simp add: disjoint_marks_def auto_rate_marks)
next
  case (MarkFilteredNoAnswer d)
  then show ?thesis
    using assms by (simp add: disjoint_marks_def mark_filtered_no_answer_def fold_no_answer_marks)
next
  case (ShortlistAllFiltered d)
  then show ?thesis
    using assms by (auto simp: disjoint_marks_def shortlist_all_filtered_def fold_shortlist_button)
next
  case (RejectAllFiltered d)
  then show ?thesis
    using assms by (auto simp: disjoint_marks_def reject_all_filtered_def fold_reject_button)
next
  case (ResetFilteredToPending d)
  then show ?thesis
    using assms by (auto simp: disjoint_marks_def reset_filtered_to_pending_def fold_reset_pending)
qed (use assms in \<open>auto simp: disjoint_marks_def save_remark_button_def add_remark_def
       shortlist_button_def reject_button_def contact_selectbox_def rating_selectbox_def
       schedule_button_def cancel_button_def mark_shortlisted_email_sent_def
       reset_all_selections_def upload_new_file_def\<close>)

lemma step_disjoint:
  assumes "disjoint_marks s"
  shows "disjoint_marks (step s a)"
proof (cases "df s")
  case None
  then show ?thesis
    using assms by (cases a) (auto simp: step_def disjoint_marks_def split: option.splits)
next
  case (Some d)
  then show ?thesis
    using assms by (simp add: step_def handle_disjoint)
qed

lemma run_snoc: "run (acts @ [a]) = step (run acts) a"
  by (simp add: run_def)

lemma run_disjoint: "disjoint_marks (run acts)"
proof (induction acts rule: rev_induct)
  case Nil
  show ?case by (simp add: run_def init_state_def disjoint_marks_def)
next
  case (snoc a acts)
  then show ?case by (simp add: run_snoc step_disjoint)
qed

text \<open>
  C1. After any sequence of actions from the initial state, no id is both shortlisted
  and rejected. The Shortlist button adds the id to the shortlisted set and removes it from
  the rejected set, the Reject button does the reverse, and Shortlist All Filtered and
  Reject All Filtered do so for the ids of all rows of the filtered frame. After Shortlist
  and then Reject of an id, its status is the Rejected label and it is not shortlisted.
\<close>

theorem disposition_mutual_exclusivity:
  "shortlisted (run acts) \<inter> rejected (run acts) = {} \<and>
   shortlisted (shortlist_button s i) = insert i (shortlisted s) \<and>
   rejected (shortlist_button s i) = rejected s - {i} \<and>
   rejected (reject_button s i) = insert i (rejected s) \<and>
   shortlisted (reject_button s i) = shortlisted s - {i} \<and>
   shortlisted (shortlist_all_filtered s d) = shortlisted s \<union> ID ` set (rows d) \<and>
   rejected (shortlist_all_filtered s d) = rejected s - ID ` set (rows d) \<and>
   rejected (reject_all_filtered s d) = rejected s \<union> ID ` set (rows d) \<and>
   shortlisted (reject_all_filtered s d) = shortlisted s - ID ` set (rows d) \<and>
   get_status (reject_button (shortlist_button s i) i) i = label_rejected \<and>
   i \<notin> shortlisted (reject_button (shortlist_button s i) i)"
proof -
  have inv: "shortlisted (run acts) \<inter> rejected (run acts) = {}"
    using run_disjoint [of acts] by (simp add: disjoint_marks_def)
  have single: "shortlisted (shortlist_button s i) = insert i (shortlisted s)"
    "rejected (shortlist_button s i) = rejected s - {i}"
    "rejected (reject_button s i) = insert i (rejected s)"
    "shortlisted (reject_button s i) = shortlisted s - {i}"
    by (simp_all add: shortlist_button_def reject_button_def)
  have bulk: "shortlisted (shortlist_all_filtered s d) = shortlisted s \<union> ID ` set (rows d)"
    "rejected (shortlist_all_filtered s d) = rejected s - ID ` set (rows d)"
    "rejected (reject_all_filtered s d) = rejected s \<union> ID ` set (rows d)"
    "shortlisted (reject_all_filtered s d) = shortlisted s - ID ` set (rows d)"
    by (simp_all add: shortlist_all_filtered_def reject_all_filtered_def
        fold_shortlist_button fold_reject_button)
  have both: "get_status (reject_button (shortlist_button s i) i) i = label_rejected"
    "i \<notin> shortlisted (reject_button (shortlist_button s i) i)"
    by (simp_all add: get_status_def shortlist_button_def reject_button_def)
  from inv single bulk both show ?thesis by simp
qed

section \<open>Reset All Selections\<close>

text \<open>
  C7. The Reset All Selections button empties the shortlisted and the rejected set and
  leaves the contact statuses, the ratings, the interview dates and the remarks of every
  id, and the dataset, as they were.
\<close>

theorem reset_all_selections_frame:
  "handle s ResetAllSelections = reset_all_selections s \<and>
   shortlisted (reset_all_selections s) = {} \<and>
   rejected (reset_all_selections s) = {} \<and>
   contact_status (reset_all_selections s) = contact_status s \<and>
   ratings (reset_all_selections s) = ratings s \<and>
   interview_scheduled (reset_all_selections s) = interview_scheduled s \<and>
   remarks (reset_all_selections s) = remarks s \<and>
   df (reset_all_selections s) = df s"
  by (simp add: reset_all_selections_def)

section \<open>The contact-status map\<close>

lemma fold_no_answer_dom:
  "dom (contact_status (fold (\<lambda>r s'. s'\<lparr>contact_status := (contact_status s')(ID r \<mapsto> v)\<rparr>) rs s))
     = dom (contact_status s) \<union> ID ` set rs"
  by (induction rs arbitrary: s) auto

lemma fold_marks_contact:
  "contact_status (fold (\<lambda>r s'. shortlist_button s' (ID r)) rs s) = contact_status s"
  "contact_status (fold (\<lambda>r s'. reject_button s' (ID r)) rs s) = contact_status s"
  "contact_status (fold (\<lambda>r s'. s'\<lparr>shortlisted := shortlisted s' - {ID r},
       rejected := rejected s' - {ID r}\<rparr>) rs s) = contact_status s"
  by (induction rs arbitrary: s) (auto simp: shortlist_button_def reject_button_def)

lemma auto_shortlist_contact:
  "contact_status (fst (auto_shortlist rule rs s)) = contact_status s"
  by (induction rs arbitrary: s) (auto simp: shortlist_button_def split: sum.splits)

lemma auto_shortlist_finite:
  "finite (shortlisted s) \<Longrightarrow> finite (shortlisted (fst (auto_shortlist rule rs s)))"
  by (induction rs arbitrary: s) (auto simp: shortlist_button_def split: sum.splits)

lemma mark_email_dom:
  "dom (contact_status (mark_shortlisted_email_sent s)) = dom (contact_status s) \<union> shortlisted s"
  by (auto simp: mark_shortlisted_email_sent_def dom_def)

lemma handle_contact_dom:
  assumes "a \<noteq> UploadNewFile"
  shows "dom (contact_status s) \<subseteq> dom (contact_status (handle s a))"
proof (cases a)
  case (ShortlistAllFiltered d)
  then show ?thesis by (simp add: shortlist_all_filtered_def fold_marks_contact)
next
  case (RejectAllFiltered d)
  then show ?thesis by (simp add: reject_all_filtered_def fold_marks_contact)
next
  case (ResetFilteredToPending d)
  then show ?thesis by (simp add: reset_filtered_to_pending_def fold_marks_contact)
next
  case (MarkFilteredNoAnswer d)
  then show ?thesis by (simp add: mark_filtered_no_answer_def fold_no_answer_dom)
qed (use assms in \<open>auto simp: save_remark_button_def add_remark_def shortlist_button_def
      reject_button_def contact_selectbox_def rating_selectbox_def schedule_button_def
      cancel_button_def mark_email_dom auto_shortlist_contact auto_rate_marks
      reset_all_selections_def\<close>)

lemma step_contact_dom:
  assumes "a \<noteq> UploadNewFile"
  shows "dom (contact_status s) \<subseteq> dom (contact_status (step s a))"
proof (cases "df s")
  case None
  then show ?thesis by (cases a) (auto simp: step_def split: option.splits)
next
  case (Some d)
  then show ?thesis using handle_contact_dom [OF assms] by (simp add: step_def)
qed

lemma handle_finite: 
  assumes "finite_marks s"
  shows "finite_marks (handle s a)"
proof (cases a)
  case (ShortlistAllFiltered d)
  then show ?thesis using assms
    by (simp add: finite_marks_def shortlist_all_filtered_def fold_marks_contact fold_shortlist_button)
next
  case (RejectAllFiltered d)
  then show ?thesis using assms
    by (simp add: finite_marks_def reject_all_filtered_def fold_marks_contact fold_reject_button)
next
  case (ResetFilteredToPending d)
  then show ?thesis using assms
    by (simp add: finite_marks_def reset_filtered_to_pending_def fold_marks_contact fold_reset_pending)
next
  case (MarkFilteredNoAnswer d)
  then show ?thesis using assms
    by (simp add: finite_marks_def mark_filtered_no_answer_def fold_no_answer_dom fold_no_answer_marks)
next
  case MarkShortlistedEmailSent
  then show ?thesis using assms
    by (simp add: finite_marks_def mark_email_dom) (simp add: mark_shortlisted_email_sent_def)
qed (use assms in \<open>auto simp: finite_marks_def save_remark_button_def add_remark_def shortlist_button_def
      reject_button_def contact_selectbox_def rating_selectbox_def schedule_button_def
      cancel_button_def auto_shortlist_contact auto_shortlist_finite auto_rate_marks
      reset_all_selections_def upload_new_file_def\<close>)

lemma step_finite:
  assumes "finite_marks s"
  shows "finite_marks (step s a)"
proof (cases "df s")
  case None
  then show ?thesis using assms by (cases a) (auto simp: step_def finite_marks_def split: option.splits)
next
  case (Some d)
  then show ?thesis using handle_finite [OF assms] by (simp add: step_def)
qed

lemma run_finite: "finite_marks (run acts)"
proof (induction acts rule: rev_induct)
  case Nil
  show ?case by (simp add: run_def init_state_def finite_marks_def)
next
  case (snoc a acts)
  then show ?case by (simp add: run_snoc step_finite)
qed

text \<open>
  C10. No action other than the Upload New File button removes a key from the
  contact-status map, whatever the state; this covers the contact select box (also when
  it sets a status back to Not Contacted), the two bulk mark buttons and Reset All
  Selections. In every state reached from the initial one, the Contacted count, which is
  the number of keys, does not decrease under such an action. Upload New File empties the
  map.
\<close>

theorem contact_entries_never_removed:
  assumes "a \<noteq> UploadNewFile"
  shows "dom (contact_status s) \<subseteq> dom (contact_status (step s a)) \<and>
         card (dom (contact_status (run acts))) \<le> card (dom (contact_status (step (run acts) a))) \<and>
         contact_status (handle s UploadNewFile) = Map.empty"
proof -
  have sub: "dom (contact_status s) \<subseteq> dom (contact_status (step s a))" for s
    by (rule step_contact_dom [OF assms])
  have "finite (dom (contact_status (step (run acts) a)))"
    using step_finite [OF run_finite, of acts a] by (simp add: finite_marks_def)
  then have "card (dom (contact_status (run acts))) \<le> card (dom (contact_status (step (run acts) a)))"
    using sub [of "run acts"] by (rule card_mono)
  then show ?thesis using sub by (simp add: upload_new_file_def)
qed

theorem contact_entries_never_removed_witness:
  "SelectContact 0 ''Not Contacted'' \<noteq> UploadNewFile \<and>
   card (dom (contact_status
     (run [FileUploaded (Some sample_table), SelectContact 0 ''Email Sent'']))) = 1 \<and>
   card (dom (contact_status
     (step (run [FileUploaded (Some sample_table), SelectContact 0 ''Email Sent''])
        (SelectContact 0 ''Not Contacted'')))) = 1"
  using contact_entries_never_removed [of "SelectContact 0 ''Not Contacted''"
      "run [FileUploaded (Some sample_table), SelectContact 0 ''Email Sent'']"
      "[FileUploaded (Some sample_table), SelectContact 0 ''Email Sent'']"]
  by (simp add: run_def step_def init_state_def load_data_def sample_table_def
      contact_selectbox_def get_contact_status_def)

section \<open>Overview percentages\<close>

text \<open>
  C2. After uploading a file that has a header line and no applications, the dataset has
  no rows and the computation of the overview percentages ends in
  \<^verbatim>\<open>ZeroDivisionError\<close>; no percentage is reported.
\<close>

theorem overview_of_empty_dataset_raises:
  "df (run [FileUploaded (Some header_only_table)]) =
     Some \<lparr>columns = [''Your Full name'', ''Gender'', age_column, ''ID''], rows = []\<rparr> \<and>
   dashboard_overview (run [FileUploaded (Some header_only_table)])
     \<lparr>columns = [''Your Full name'', ''Gender'', age_column, ''ID''], rows = []\<rparr>
     = Inl ZeroDivisionError"
  by (simp add: run_def step_def init_state_def load_data_def header_only_table_def
      age_column_def dashboard_overview_def bindE_def percentage_def len_def)

section \<open>Ready for onboarding\<close>

text \<open>
  C6. A candidate who is shortlisted and whose contact status is
  \<^verbatim>\<open>Called - Not Interested\<close> is in the ready-for-onboarding list and is counted by
  Candidates Ready, since that status contains the word \<^verbatim>\<open>Interested\<close>.
\<close>

theorem not_interested_counted_as_ready:
  "0 \<in> shortlisted (run [FileUploaded (Some sample_table), Shortlist 0,
           SelectContact 0 ''Called - Not Interested'']) \<and>
   get_contact_status (run [FileUploaded (Some sample_table), Shortlist 0,
           SelectContact 0 ''Called - Not Interested'']) 0 = ''Called - Not Interested'' \<and>
   0 \<in> ready_candidates (run [FileUploaded (Some sample_table), Shortlist 0,
           SelectContact 0 ''Called - Not Interested'']) \<and>
   candidates_ready (run [FileUploaded (Some sample_table), Shortlist 0,
           SelectContact 0 ''Called - Not Interested'']) = 1"
  by (simp add: run_def step_def init_state_def load_data_def sample_table_def
      shortlist_button_def contact_selectbox_def get_contact_status_def
      ready_candidates_def candidates_ready_def sublist_code)

section \<open>Blank remarks\<close>

lemma strip_empty_iff: "strip t = [] \<longleftrightarrow> (\<forall>c \<in> set t. py_isspace c)"
proof
  assume "strip t = []"
  then have all: "\<forall>c \<in> set (dropWhile py_isspace t). py_isspace c"
    by (simp add: strip_def)
  have "dropWhile py_isspace t = []"
  proof (rule ccontr)
    assume ne: "dropWhile py_isspace t \<noteq> []"
    then have "\<not> py_isspace (hd (dropWhile py_isspace t))"
      by (rule hd_dropWhile)
    moreover have "hd (dropWhile py_isspace t) \<in> set (dropWhile py_isspace t)"
      using ne by simp
    ultimately show False using all by blast
  qed
  then show "\<forall>c \<in> set t. py_isspace c"
    by simp
next
  assume "\<forall>c \<in> set t. py_isspace c"
  then show "strip t = []"
    by (auto simp: strip_def dest: set_dropWhileD)
qed

lemma py_isspace_set:
  "{c. py_isspace c} =
     {9, 10, 11, 12, 13, 28, 29, 30, 31, 32, 133, 160, 5760, 8192, 8193, 8194, 8195, 8196,
      8197, 8198, 8199, 8200, 8201, 8202, 8232, 8233, 8239, 8287, 12288}"
proof -
  have "c \<in> {8192, 8193, 8194, 8195, 8196, 8197, 8198, 8199, 8200, 8201, 8202}"
    if "8192 \<le> c" and "c \<le> 8202" for c :: nat
    using that by (simp only: insert_iff empty_iff) arith
  then show ?thesis
    by (auto simp: py_isspace_def)
qed

lemma nonblank_remark_saved:
  assumes "\<not> (\<forall>c \<in> set text. py_isspace c)"
  shows "save_remark_button s i text now
           = (add_remark s i now text, [Success ''Remark saved!''])"
  using assms by (simp add: save_remark_button_def strip_empty_iff)

text \<open>
  C3, as the claim states it, fails: for a remark made of a space, a no-break space and an
  ideographic space the Save button reports nothing at all, and \<^verbatim>\<open>add_remark\<close>
  called with that text appends it.
\<close>

theorem blank_remark_counterexample:
  "save_remark_button init_state 0 [0x20, 0xA0, 0x3000] ''2024-01-01 10:00:00''
     = (init_state, []) \<and>
   get_remarks (add_remark init_state 0 ''2024-01-01 10:00:00'' [0x20, 0xA0, 0x3000]) 0
     = [(''2024-01-01 10:00:00'', [0x20, 0xA0, 0x3000])]"
  by (simp add: save_remark_button_def strip_def py_isspace_def add_remark_def
      get_remarks_def init_state_def)

text \<open>
  C3, amended. For every id and every text that is empty or consists of whitespace only
  (every code point is one that \<^verbatim>\<open>str.strip()\<close> removes), the Save button leaves the
  whole session state unchanged, so nothing is appended, and it reports nothing, neither
  an error nor a success. \<^verbatim>\<open>add_remark\<close> itself does not check its text: it appends
  what it is given.
\<close>

theorem blank_remark_dropped_silently:
  assumes "\<forall>c \<in> set text. py_isspace c"
  shows "save_remark_button s i text now = (s, []) \<and>
         get_remarks (add_remark s i now text) i = get_remarks s i @ [(now, text)]"
  using assms by (simp add: save_remark_button_def strip_empty_iff add_remark_def get_remarks_def)

theorem blank_remark_dropped_silently_witness:
  "list_all py_isspace [0x09, 0x85, 0x2003, 0x20] \<and>
   save_remark_button init_state 7 [0x09, 0x85, 0x2003, 0x20] ''2024-01-01 10:00:00''
     = (init_state, [])"
  using blank_remark_dropped_silently
    [of "[0x09, 0x85, 0x2003, 0x20]" init_state 7 "''2024-01-01 10:00:00''"]
  by (simp add: py_isspace_def)

section \<open>Filters\<close>

lemma bindE_Inr: "bindE m k = Inr y \<Longrightarrow> (\<And>x. m = Inr x \<Longrightarrow> k x = Inr y \<Longrightarrow> P) \<Longrightarrow> P"
  by (cases m) (auto simp: bindE_def)

lemma select_rows: "select c p d = Inr out \<Longrightarrow> rows out = filter p (rows d)"
  by (auto simp: select_def split: if_splits)

lemma select_subset: "select c p d = Inr out \<Longrightarrow> set (rows out) \<subseteq> set (rows d)"
  by (auto simp: select_def split: if_splits)

lemma search_filter_subset: "search_filter e pat d = Inr out \<Longrightarrow> set (rows out) \<subseteq> set (rows d)"
  by (auto simp: search_filter_def split: if_splits option.splits)

lemma eq_filter_subset: "eq_filter c v d = Inr out \<Longrightarrow> set (rows out) \<subseteq> set (rows d)"
  by (auto simp: eq_filter_def split: if_splits dest: select_subset)

lemma contact_status_filter_subset:
  "contact_status_filter s v d = Inr out \<Longrightarrow> set (rows out) \<subseteq> set (rows d)"
  by (auto simp: contact_status_filter_def split: if_splits dest: select_subset)

lemma interview_status_filter_subset:
  "interview_status_filter s v d = Inr out \<Longrightarrow> set (rows out) \<subseteq> set (rows d)"
  by (auto simp: interview_status_filter_def split: if_splits dest: select_subset)

lemma view_mode_filter_subset:
  "view_mode_filter s v d = Inr out \<Longrightarrow> set (rows out) \<subseteq> set (rows d)"
  by (auto simp: view_mode_filter_def split: if_splits dest: select_subset)

lemma age_bound_subset: "age_bound cmp b d = Inr out \<Longrightarrow> set (rows out) \<subseteq> set (rows d)"
  by (auto simp: age_bound_def split: option.splits if_splits dest: select_subset)

lemma age_bound_has_age:
  assumes "age_bound cmp b d = Inr out" and "py_truthy b" and "r \<in> set (rows out)"
  shows "\<exists>a. cell_at r ''Age'' = Num a"
proof -
  from assms(2) obtain m where b: "b = Some m" and m: "m \<noteq> 0"
    by (auto simp: py_truthy_def split: option.splits)
  with assms(1) have "rows out = filter (\<lambda>r. case cell_at r ''Age'' of Num a \<Rightarrow> cmp a m | _ \<Rightarrow> False) (rows d)"
    by (simp add: age_bound_def select_rows)
  with assms(3) show ?thesis
    by (cases "cell_at r ''Age''") auto
qed

lemma assign_age_row:
  assumes "r \<in> set (rows (assign ''Age'' (\<lambda>r. case calculate_age e (cell_at r age_column) of
                 None \<Rightarrow> NaN | Some a \<Rightarrow> Num a) d))"
  shows "\<exists>r0 \<in> set (rows d). ID r = ID r0 \<and> cell_at r age_column = cell_at r0 age_column \<and>
           cell_at r ''Age'' = (case calculate_age e (cell_at r0 age_column) of
                 None \<Rightarrow> NaN | Some a \<Rightarrow> Num a)"
  using assms by (auto simp: assign_def cell_at_def age_column_def)

lemma age_filter_parsed:
  assumes "age_filter e lo hi d = Inr out" and "py_truthy lo \<or> py_truthy hi"
    and "r \<in> set (rows out)"
  shows "\<exists>r0 \<in> set (rows d). ID r = ID r0 \<and> calculate_age e (cell_at r0 age_column) \<noteq> None"
proof -
  let ?d1 = "assign ''Age'' (\<lambda>r. case calculate_age e (cell_at r age_column) of
                 None \<Rightarrow> NaN | Some a \<Rightarrow> Num a) d"
  from assms(1,2) have "bindE (age_bound (\<lambda>a m. a \<ge> m) lo ?d1) (age_bound (\<lambda>a m. a \<le> m) hi) = Inr out"
    by (auto simp: age_filter_def split: if_splits)
  then obtain d2 where lo: "age_bound (\<lambda>a m. a \<ge> m) lo ?d1 = Inr d2"
    and hi: "age_bound (\<lambda>a m. a \<le> m) hi d2 = Inr out"
    by (rule bindE_Inr)
  have r2: "r \<in> set (rows d2)" using age_bound_subset [OF hi] assms(3) by blast
  then have r1: "r \<in> set (rows ?d1)" using age_bound_subset [OF lo] by blast
  have "\<exists>a. cell_at r ''Age'' = Num a"
    using assms(2) age_bound_has_age [OF lo _ r2] age_bound_has_age [OF hi _ assms(3)] by blast
  moreover from assign_age_row [OF r1] obtain r0 where r0: "r0 \<in> set (rows d)" "ID r = ID r0"
      "cell_at r ''Age'' = (case calculate_age e (cell_at r0 age_column) of
                 None \<Rightarrow> NaN | Some a \<Rightarrow> Num a)"
    by blast
  ultimately have "calculate_age e (cell_at r0 age_column) \<noteq> None"
    by (auto split: option.splits)
  with r0 show ?thesis by blast
qed

lemma apply_filters_parsed:
  assumes "apply_filters e s d f = Inr out" and "py_truthy (min_age f) \<or> py_truthy (max_age f)"
    and "r \<in> set (rows out)"
  shows "\<exists>r0 \<in> set (rows d). ID r = ID r0 \<and> calculate_age e (cell_at r0 age_column) \<noteq> None"
proof -
  from assms(1) obtain d1 d2 d3 d4 d5 d6 d7 d8 d9 d10 d11 where
    st: "search_filter e (search f) d = Inr d1"
      "eq_filter ''Gender'' (gender f) d1 = Inr d2"
      "eq_filter ''Your highest qualification'' (qualification f) d2 = Inr d3"
      "eq_filter ''Which type of internship would you prefer?'' (internship_type f) d3 = Inr d4"
      "eq_filter ''Do you have a laptop?'' (laptop f) d4 = Inr d5"
      "eq_filter ''Do you have a smartphone?'' (smartphone f) d5 = Inr d6"
      "eq_filter ''District of Residence'' (district f) d6 = Inr d7"
      "eq_filter ''Hours of internship you can provide'' (availability f) d7 = Inr d8"
      "contact_status_filter s (contact_filter f) d8 = Inr d9"
      "interview_status_filter s (interview_filter f) d9 = Inr d10"
      "age_filter e (min_age f) (max_age f) d10 = Inr d11"
      "view_mode_filter s (view_mode f) d11 = Inr out"
    unfolding apply_filters_def by (elim bindE_Inr) blast
  have before: "set (rows d10) \<subseteq> set (rows d)"
    using search_filter_subset [OF st(1)] eq_filter_subset [OF st(2)] eq_filter_subset [OF st(3)]
      eq_filter_subset [OF st(4)] eq_filter_subset [OF st(5)] eq_filter_subset [OF st(6)]
      eq_filter_subset [OF st(7)] eq_filter_subset [OF st(8)]
      contact_status_filter_subset [OF st(9)] interview_status_filter_subset [OF st(10)]
    by blast
  have "r \<in> set (rows d11)"
    using view_mode_filter_subset [OF st(12)] assms(3) by blast
  from age_filter_parsed [OF st(11) assms(2) this] before show ?thesis by blast
qed

lemma load_data_ids: "load_data (Some t) = Some d \<Longrightarrow> map ID (rows d) = map int [0..<length (raw_rows t)]"
  by (auto simp: load_data_def enumerate_eq_zip map_zip_map intro: nth_equalityI)

lemma load_data_distinct:
  assumes "load_data upl = Some d"
  shows "distinct (map ID (rows d))"
proof -
  from assms obtain t where "upl = Some t"
    by (cases upl) (auto simp: load_data_def)
  with assms have eq: "map ID (rows d) = map int [0..<length (raw_rows t)]"
    by (simp add: load_data_ids)
  show ?thesis
    unfolding eq by (simp add: distinct_map inj_on_def)
qed

lemmas filter_defs = apply_filters_def bindE_def no_filters_def search_filter_def eq_filter_def
     contact_status_filter_def interview_status_filter_def age_filter_def age_bound_def py_truthy_def
     view_mode_filter_def select_def

text \<open>
  C8. When the minimum or the maximum age of the filter is set (a value other than
  \<^verbatim>\<open>None\<close> and \<^verbatim>\<open>0\<close>, which the sidebar turns into \<^verbatim>\<open>None\<close>), a candidate of
  the dataset whose birth date yields no age, because it is missing, empty or not a date,
  is not in the result of \<^verbatim>\<open>apply_filters\<close>, whichever bound is set. The ids of the
  dataset are distinct, as \<^verbatim>\<open>load_data\<close> assigns them.
\<close>

theorem unparsed_age_excluded:
  assumes "apply_filters e s d f = Inr out"
    and "py_truthy (min_age f) \<or> py_truthy (max_age f)"
    and "distinct (map ID (rows d))"
    and "r0 \<in> set (rows d)"
    and "calculate_age e (cell_at r0 age_column) = None"
  shows "ID r0 \<notin> ID ` set (rows out)"
proof
  assume "ID r0 \<in> ID ` set (rows out)"
  then obtain r where r: "r \<in> set (rows out)" "ID r = ID r0" by auto
  from apply_filters_parsed [OF assms(1,2) r(1)] obtain r1 where
    r1: "r1 \<in> set (rows d)" "ID r = ID r1" "calculate_age e (cell_at r1 age_column) \<noteq> None"
    by blast
  have "inj_on ID (set (rows d))" using assms(3) by (simp add: distinct_map)
  with r1(1,2) r(2) assms(4) have "r1 = r0" by (auto dest: inj_onD)
  with r1(3) assms(5) show False by simp
qed

theorem unparsed_age_excluded_witness:
  "apply_filters sample_env init_state sample_frame (no_filters\<lparr>max_age := Some 30\<rparr>)
      = Inr sample_filtered \<and>
   py_truthy (max_age (no_filters\<lparr>max_age := Some 30\<rparr>)) \<and>
   distinct (map ID (rows sample_frame)) \<and>
   \<lparr>ID = 1, cells = ravi\<rparr> \<in> set (rows sample_frame) \<and>
   calculate_age sample_env (cell_at \<lparr>ID = 1, cells = ravi\<rparr> age_column) = None \<and>
   1 \<notin> ID ` set (rows sample_filtered)"
proof -
  have h1: "apply_filters sample_env init_state sample_frame (no_filters\<lparr>max_age := Some 30\<rparr>)
      = Inr sample_filtered"
    by (simp add: filter_defs sample_frame_def sample_filtered_def assign_def cell_at_def
        calculate_age_def sample_env_def asha_def ravi_def age_column_def)
  have h2: "py_truthy (min_age (no_filters\<lparr>max_age := Some 30\<rparr>)) \<or>
            py_truthy (max_age (no_filters\<lparr>max_age := Some 30\<rparr>))"
    by (simp add: py_truthy_def)
  have h3: "distinct (map ID (rows sample_frame))"
    by (simp add: sample_frame_def)
  have h4: "\<lparr>ID = 1, cells = ravi\<rparr> \<in> set (rows sample_frame)"
    by (simp add: sample_frame_def)
  have h5: "calculate_age sample_env (cell_at \<lparr>ID = 1, cells = ravi\<rparr> age_column) = None"
    by (simp add: calculate_age_def cell_at_def ravi_def age_column_def)
  from unparsed_age_excluded [OF h1 h2 h3 h4 h5] h1 h3 h4 h5 show ?thesis
    by (simp add: py_truthy_def)
qed

text \<open>
  C4. Candidate 0 is given the contact status Email Sent and then Not Contacted again. Its
  contact status reads Not Contacted, yet the filter Not Contacted leaves it out (only
  candidate 1 remains) and the filter Contacted returns it: both filters test whether the
  id is a key of the contact-status map, whatever the value.
\<close>

theorem reset_contact_still_contacted:
  "df (run [FileUploaded (Some sample_table), SelectContact 0 ''Email Sent'',
       SelectContact 0 ''Not Contacted'']) = Some sample_frame \<and>
   get_contact_status (run [FileUploaded (Some sample_table), SelectContact 0 ''Email Sent'',
       SelectContact 0 ''Not Contacted'']) 0 = ''Not Contacted'' \<and>
   map_sum id (\<lambda>d. map ID (rows d))
     (apply_filters e (run [FileUploaded (Some sample_table), SelectContact 0 ''Email Sent'',
       SelectContact 0 ''Not Contacted'']) sample_frame
       (no_filters\<lparr>contact_filter := ''Not Contacted''\<rparr>)) = Inr [1] \<and>
   map_sum id (\<lambda>d. map ID (rows d))
     (apply_filters e (run [FileUploaded (Some sample_table), SelectContact 0 ''Email Sent'',
       SelectContact 0 ''Not Contacted'']) sample_frame
       (no_filters\<lparr>contact_filter := ''Contacted''\<rparr>)) = Inr [0]"
  by (simp add: run_def step_def init_state_def load_data_def sample_table_def sample_frame_def
      contact_selectbox_def get_contact_status_def filter_defs age_column_def)

section \<open>Full report\<close>

lemma full_report_columns:
  assumes "set report_columns \<inter> set (columns d) = {}"
  shows "columns (full_report s d) = columns d @ report_columns"
  using assms by (auto simp: full_report_def assign_def report_columns_def)

lemma full_report_rows:
  "rows (full_report s d) =
     map (\<lambda>r. r\<lparr>cells := (cells r)
        (''Status'' := Str (get_status s (ID r)),
         ''Contact_Status'' := Str (get_contact_status s (ID r)),
         ''Rating'' := Num (get_rating s (ID r)),
         ''Interview_Date'' := Str (case interview_scheduled s (ID r) of
                                      None \<Rightarrow> ''Not Scheduled'' | Some v \<Rightarrow> v))\<rparr>) (rows d)"
  by (simp add: full_report_def assign_def comp_def)

lemma full_report_original:
  assumes "c \<notin> set report_columns"
  shows "map (\<lambda>r. cell_at r c) (rows (full_report s d)) = map (\<lambda>r. cell_at r c) (rows d)"
  using assms by (auto simp: full_report_rows cell_at_def report_columns_def)

lemma full_report_ids: "map ID (rows (full_report s d)) = map ID (rows d)"
  by (simp add: full_report_rows comp_def)

lemma full_report_derived:
  "map (\<lambda>r. cell_at r ''Status'') (rows (full_report s d)) = map (\<lambda>r. Str (get_status s (ID r))) (rows d)"
  "map (\<lambda>r. cell_at r ''Contact_Status'') (rows (full_report s d))
     = map (\<lambda>r. Str (get_contact_status s (ID r))) (rows d)"
  "map (\<lambda>r. cell_at r ''Rating'') (rows (full_report s d)) = map (\<lambda>r. Num (get_rating s (ID r))) (rows d)"
  "map (\<lambda>r. cell_at r ''Interview_Date'') (rows (full_report s d))
     = map (\<lambda>r. Str (case interview_scheduled s (ID r) of
                        None \<Rightarrow> ''Not Scheduled'' | Some v \<Rightarrow> v)) (rows d)"
  by (simp_all add: full_report_rows cell_at_def comp_def)

lemma reload_exported:
  assumes "''ID'' \<in> set (columns d)" and "map ID (rows d) = map int [0..<length (rows d)]"
  shows "load_data (Some (exported_table d)) = Some d'
     \<Longrightarrow> columns d' = columns d \<and> map (\<lambda>r. cell_at r c) (rows d') = map (\<lambda>r. cell_at r c) (rows d)"
proof -
  assume l: "load_data (Some (exported_table d)) = Some d'"
  then have cols: "columns d' = columns d" and
    rws: "rows d' = map (\<lambda>(i, r). \<lparr>ID = int i, cells = cell_at r\<rparr>) (enumerate 0 (rows d))"
    using assms(1) by (auto simp: load_data_def exported_table_def enumerate_eq_zip zip_map2 comp_def case_prod_unfold)
  have "map (\<lambda>r. cell_at r c) (rows d') = map (\<lambda>r. cell_at r c) (rows d)"
  proof (rule nth_equalityI)
    show "length (map (\<lambda>r. cell_at r c) (rows d')) = length (map (\<lambda>r. cell_at r c) (rows d))"
      by (simp add: rws)
  next
    fix i assume "i < length (map (\<lambda>r. cell_at r c) (rows d'))"
    then have i: "i < length (rows d)" by (simp add: rws)
    have "ID (rows d ! i) = int i"
      using arg_cong [OF assms(2), of "\<lambda>xs. xs ! i"] i by simp
    with i show "map (\<lambda>r. cell_at r c) (rows d') ! i = map (\<lambda>r. cell_at r c) (rows d) ! i"
      by (simp add: rws nth_enumerate_eq cell_at_def)
  qed
  with cols show ?thesis by simp
qed

lemma load_data_has_ID: "load_data upl = Some d \<Longrightarrow> ''ID'' \<in> set (columns d)"
  by (cases upl) (auto simp: load_data_def)

lemma load_data_rows_ids:
  "load_data upl = Some d \<Longrightarrow> map ID (rows d) = map int [0..<length (rows d)]"
  by (cases upl) (auto simp: load_data_def enumerate_eq_zip map_zip_map intro: nth_equalityI)

text \<open>
  C9, as the claim states it, fails for a dataset that already has a column named
  \<^verbatim>\<open>Status\<close> (such as a re-imported report): the report overwrites the values of that
  column and appends only three columns.
\<close>

theorem full_report_counterexample:
  "load_data (Some status_table) = Some status_frame \<and>
   map (\<lambda>r. cell_at r ''Status'') (rows status_frame) = [Str ''old''] \<and>
   map (\<lambda>r. cell_at r ''Status'') (rows (full_report init_state status_frame))
     = [Str label_pending] \<and>
   Str label_pending \<noteq> Str ''old'' \<and>
   columns (full_report init_state status_frame)
     = [''Your Full name'', ''Status'', ''ID'', ''Contact_Status'', ''Rating'', ''Interview_Date'']"
  by (simp add: load_data_def status_table_def status_frame_def full_report_def assign_def
      cell_at_def get_status_def init_state_def label_pending_def)

text \<open>
  C9, amended. For every dataset made by \<^verbatim>\<open>load_data\<close> that has no column named
  \<^verbatim>\<open>Status\<close>, \<^verbatim>\<open>Contact_Status\<close>, \<^verbatim>\<open>Rating\<close> or \<^verbatim>\<open>Interview_Date\<close>, and
  every session state, the full report has the columns of the dataset followed by exactly
  these four, the same rows in the same order with the same ids, and the same values in
  every column of the dataset; the four new columns hold the status label, the contact
  status, the rating and the interview date or \<^verbatim>\<open>Not Scheduled\<close>. Loading the
  table of the report again gives a dataset with the report's columns and, in every column
  of the original dataset, the original values.
\<close>

theorem full_report_additive:
  assumes "load_data upl = Some d"
    and "set report_columns \<inter> set (columns d) = {}"
  shows "columns (full_report s d) = columns d @ report_columns \<and>
    map ID (rows (full_report s d)) = map ID (rows d) \<and>
    (\<forall>c \<in> set (columns d).
       map (\<lambda>r. cell_at r c) (rows (full_report s d)) = map (\<lambda>r. cell_at r c) (rows d)) \<and>
    map (\<lambda>r. cell_at r ''Status'') (rows (full_report s d))
      = map (\<lambda>r. Str (get_status s (ID r))) (rows d) \<and>
    map (\<lambda>r. cell_at r ''Contact_Status'') (rows (full_report s d))
      = map (\<lambda>r. Str (get_contact_status s (ID r))) (rows d) \<and>
    map (\<lambda>r. cell_at r ''Rating'') (rows (full_report s d))
      = map (\<lambda>r. Num (get_rating s (ID r))) (rows d) \<and>
    map (\<lambda>r. cell_at r ''Interview_Date'') (rows (full_report s d))
      = map (\<lambda>r. Str (case interview_scheduled s (ID r) of
                         None \<Rightarrow> ''Not Scheduled'' | Some v \<Rightarrow> v)) (rows d) \<and>
    (\<exists>d'. load_data (Some (exported_table (full_report s d))) = Some d' \<and>
       columns d' = columns (full_report s d) \<and>
       (\<forall>c \<in> set (columns d).
          map (\<lambda>r. cell_at r c) (rows d') = map (\<lambda>r. cell_at r c) (rows d)))"
proof -
  have cols: "columns (full_report s d) = columns d @ report_columns"
    by (rule full_report_columns [OF assms(2)])
  have orig: "map (\<lambda>r. cell_at r c) (rows (full_report s d)) = map (\<lambda>r. cell_at r c) (rows d)"
    if "c \<in> set (columns d)" for c
  proof -
    from that assms(2) have "c \<notin> set report_columns" by blast
    then show ?thesis by (rule full_report_original)
  qed
  have id_col: "''ID'' \<in> set (columns (full_report s d))"
    using load_data_has_ID [OF assms(1)] by (simp add: cols)
  have len: "length (rows (full_report s d)) = length (rows d)"
    by (simp add: full_report_rows)
  have ids: "map ID (rows (full_report s d)) = map int [0..<length (rows (full_report s d))]"
    using load_data_rows_ids [OF assms(1)] by (simp add: full_report_ids len)
  obtain d' where d': "load_data (Some (exported_table (full_report s d))) = Some d'"
    by (simp add: load_data_def)
  have again: "columns d' = columns (full_report s d) \<and>
      map (\<lambda>r. cell_at r c) (rows d') = map (\<lambda>r. cell_at r c) (rows (full_report s d))" for c
    by (rule reload_exported [OF id_col ids d'])
  have reload: "\<exists>d'. load_data (Some (exported_table (full_report s d))) = Some d' \<and>
       columns d' = columns (full_report s d) \<and>
       (\<forall>c \<in> set (columns d).
          map (\<lambda>r. cell_at r c) (rows d') = map (\<lambda>r. cell_at r c) (rows d))"
    using d' again orig by auto
  from cols orig reload show ?thesis
    by (simp add: full_report_ids full_report_derived)
qed

theorem full_report_additive_witness:
  "load_data (Some sample_table) = Some sample_frame \<and>
   set report_columns \<inter> set (columns sample_frame) = {} \<and>
   columns (full_report init_state sample_frame)
     = [''Your Full name'', ''Gender'', age_column, ''ID'',
        ''Status'', ''Contact_Status'', ''Rating'', ''Interview_Date''] \<and>
   map ID (rows (full_report init_state sample_frame)) = [0, 1]"
proof -
  have h1: "load_data (Some sample_table) = Some sample_frame"
    by (simp add: load_data_def sample_table_def sample_frame_def age_column_def)
  have h2: "set report_columns \<inter> set (columns sample_frame) = {}"
    by (simp add: report_columns_def sample_frame_def age_column_def)
  from full_report_additive [OF h1 h2, of init_state] h1 h2 show ?thesis
    by (simp add: report_columns_def sample_frame_def)
qed

end
